theory Spec2Isabelle
  imports Complex_Main
begin

section \<open>Numbers and arrays\<close>

text \<open>
  A numpy float64 that depends on a candidate point is either a finite number or \<open>nan\<close>.
  Finite numbers are exact reals: rounding, overflow and the infinities are not part of
  the model. Arithmetic follows numpy: \<open>nan\<close> is absorbing, and every comparison with
  \<open>nan\<close> is false. A quotient by zero, which numpy evaluates to \<open>inf\<close> or \<open>nan\<close> with a
  warning, is \<open>NaN\<close> here; every statement below that divides has a non-zero divisor.
  Hyperparameters and the cells of the auxiliary table are plain reals. What float64
  rounding decides (whether the sigmoid stays strictly inside its bounds, whether a
  computed variance is exactly zero) is outside this model: the statements below are
  either free of rounding or evaluations whose outcome rounding does not change.
\<close>

datatype npfloat = Fin real | NaN

instantiation npfloat :: "{plus, minus, times, inverse, ord}"
begin

fun plus_npfloat :: "npfloat \<Rightarrow> npfloat \<Rightarrow> npfloat" where
  "plus_npfloat (Fin a) (Fin b) = Fin (a + b)"
| "plus_npfloat _ _ = NaN"

fun minus_npfloat :: "npfloat \<Rightarrow> npfloat \<Rightarrow> npfloat" where
  "minus_npfloat (Fin a) (Fin b) = Fin (a - b)"
| "minus_npfloat _ _ = NaN"

fun times_npfloat :: "npfloat \<Rightarrow> npfloat \<Rightarrow> npfloat" where
  "times_npfloat (Fin a) (Fin b) = Fin (a * b)"
| "times_npfloat _ _ = NaN"

fun divide_npfloat :: "npfloat \<Rightarrow> npfloat \<Rightarrow> npfloat" where
  "divide_npfloat (Fin a) (Fin b) = (if b = 0 then NaN else Fin (a / b))"
| "divide_npfloat _ _ = NaN"

fun inverse_npfloat :: "npfloat \<Rightarrow> npfloat" where
  "inverse_npfloat (Fin a) = (if a = 0 then NaN else Fin (1 / a))"
| "inverse_npfloat NaN = NaN"

fun less_npfloat :: "npfloat \<Rightarrow> npfloat \<Rightarrow> bool" where
  "less_npfloat (Fin a) (Fin b) = (a < b)"
| "less_npfloat _ _ = False"

fun less_eq_npfloat :: "npfloat \<Rightarrow> npfloat \<Rightarrow> bool" where
  "less_eq_npfloat (Fin a) (Fin b) = (a \<le> b)"
| "less_eq_npfloat _ _ = False"

instance ..

end

text \<open>\<open>np.exp\<close> and \<open>np.isnan\<close> on one element.\<close>

fun np_exp :: "npfloat \<Rightarrow> npfloat" where
  "np_exp (Fin a) = Fin (exp a)"
| "np_exp NaN = NaN"

fun isnan :: "npfloat \<Rightarrow> bool" where
  "isnan NaN = True"
| "isnan (Fin _) = False"

text \<open>
  An array of shape \<open>[n, 1]\<close> (a posterior mean, a probability, the quantiles) is the list
  of its \<open>n\<close> entries. An array of shape \<open>[n, d]\<close> keeps \<open>d\<close> beside its rows, so that the
  shape \<open>[0, d]\<close> exists too.
\<close>

type_synonym column = "npfloat list"

record ndarray =
  ncols :: nat
  rows :: "npfloat list list"

definition nrows :: "ndarray \<Rightarrow> nat" where
  "nrows x = length (rows x)"

text \<open>\<open>np.any(np.isnan(x))\<close>.\<close>

definition any_isnan :: "ndarray \<Rightarrow> bool" where
  "any_isnan x = list_ex (list_ex isnan) (rows x)"

text \<open>
  Elementwise arithmetic of numpy, on operands whose row counts agree (numpy raises or
  broadcasts otherwise; the statements below fix the shapes). An \<open>[n, 1]\<close> operand is
  broadcast along the columns of an \<open>[n, d]\<close> one.
\<close>

definition col_times :: "column \<Rightarrow> column \<Rightarrow> column" where
  "col_times a b = map2 (*) a b"

definition col_plus :: "column \<Rightarrow> column \<Rightarrow> column" where
  "col_plus a b = map2 (+) a b"

definition col_minus :: "column \<Rightarrow> column \<Rightarrow> column" where
  "col_minus a b = map2 (-) a b"

definition col_div_scalar :: "column \<Rightarrow> real \<Rightarrow> column" where
  "col_div_scalar a c = map (\<lambda>v. v / Fin c) a"

definition mat_times_col :: "ndarray \<Rightarrow> column \<Rightarrow> ndarray" where
  "mat_times_col m c = m\<lparr>rows := map2 (\<lambda>r v. map (\<lambda>e. e * v) r) (rows m) c\<rparr>"

definition col_times_mat :: "column \<Rightarrow> ndarray \<Rightarrow> ndarray" where
  "col_times_mat c m = m\<lparr>rows := map2 (\<lambda>v r. map (\<lambda>e. v * e) r) c (rows m)\<rparr>"

definition mat_plus :: "ndarray \<Rightarrow> ndarray \<Rightarrow> ndarray" where
  "mat_plus a b = a\<lparr>rows := map2 (map2 (+)) (rows a) (rows b)\<rparr>"

definition mat_minus :: "ndarray \<Rightarrow> ndarray \<Rightarrow> ndarray" where
  "mat_minus a b = a\<lparr>rows := map2 (map2 (-)) (rows a) (rows b)\<rparr>"

text \<open>
  \<open>x[:, i] = x[:, i] - c\<close>, \<open>x[:, i] = x[:, i] + c\<close> and \<open>g[:, i] = v\<close>, for a column
  index \<open>i\<close> below the column count (the only indices the loop of
  \<open>calc_gradient_of_P\<close> produces).
\<close>

definition column_minus :: "nat \<Rightarrow> real \<Rightarrow> ndarray \<Rightarrow> ndarray" where
  "column_minus i c x = x\<lparr>rows := map (\<lambda>r. r[i := r ! i - Fin c]) (rows x)\<rparr>"

definition column_plus :: "nat \<Rightarrow> real \<Rightarrow> ndarray \<Rightarrow> ndarray" where
  "column_plus i c x = x\<lparr>rows := map (\<lambda>r. r[i := r ! i + Fin c]) (rows x)\<rparr>"

definition set_column :: "nat \<Rightarrow> column \<Rightarrow> ndarray \<Rightarrow> ndarray" where
  "set_column i v g = g\<lparr>rows := map2 (\<lambda>r e. r[i := e]) (rows g) v\<rparr>"

definition get_column :: "nat \<Rightarrow> ndarray \<Rightarrow> column" where
  "get_column i g = map (\<lambda>r. r ! i) (rows g)"

section \<open>The auxiliary surrogate and the probability transform\<close>

text \<open>
  A fitted GPy regression model, as far as this code reads it: the kernel's lengthscale
  and variance, and \<open>predict_noiseless\<close>, which returns the pair of the posterior mean
  and variance, each of shape \<open>[n, 1]\<close>.
\<close>

record gp =
  kern_lengthscale :: real
  kern_variance :: real
  predict_noiseless :: "ndarray \<Rightarrow> column \<times> column"

text \<open>\<open>inv_sigmoid\<close>, on one element of the mean; numpy applies it to every element.\<close>

definition inv_sigmoid :: "npfloat \<Rightarrow> real \<Rightarrow> real \<Rightarrow> npfloat" where
  "inv_sigmoid mean midpoint beta =
     Fin 1 / (Fin 1 + np_exp ((mean - Fin midpoint) / Fin beta))"

text \<open>\<open>calc_P\<close> of EI\_DFT.py: the pair \<open>(mean, propability)\<close>.\<close>

definition calc_P :: "ndarray \<Rightarrow> gp option \<Rightarrow> real \<Rightarrow> real \<Rightarrow> column \<times> column" where
  "calc_P points GP_model beta midpoint =
     (case GP_model of
        Some m \<Rightarrow>
          (let mean = fst (predict_noiseless m points);
               propability = map (\<lambda>v. inv_sigmoid v midpoint beta) mean
           in (mean, propability))
      | None \<Rightarrow>
          (let mean = map (\<lambda>z. z + Fin (1/2)) (replicate (nrows points) (Fin 0));
               propability = replicate (nrows points) (Fin 1)
           in (mean, propability)))"

section \<open>The finite-difference gradient\<close>

text \<open>
  \<open>calc_gradient_of_P\<close> of EI\_DFT.py (the safe copy has the same body). \<open>np.empty\<close>
  returns uninitialised memory: its content is the parameter \<open>uninit\<close>, an array of
  the shape of \<open>x\<close>. The \<open>return g\<close> stands inside the loop body, so the loop ends in
  its first iteration; with no column the loop body never runs and the function returns
  Python's \<open>None\<close>.
\<close>

definition calc_gradient_of_P ::
  "ndarray \<Rightarrow> ndarray \<Rightarrow> gp option \<Rightarrow> real \<Rightarrow> real \<Rightarrow> real \<Rightarrow> ndarray option" where
  "calc_gradient_of_P uninit x constraint_model beta midpoint lengthscale =
     (let delta_x = lengthscale / 1000;
          g = uninit
      in case [0..<ncols x] of
           [] \<Rightarrow> None
         | i # _ \<Rightarrow>
             (let x_l = column_minus i delta_x x;
                  x_u = column_plus i delta_x x;
                  p_l = snd (calc_P x_l constraint_model beta midpoint);
                  p_u = snd (calc_P x_u constraint_model beta midpoint);
                  g = set_column i (col_div_scalar (col_minus p_u p_l) (2 * delta_x)) g
              in Some g))"

text \<open>
  The gradient as the specification words it: for every dimension \<open>i\<close> below \<open>d\<close>,
  column \<open>i\<close> is the central difference \<open>(p_upper - p_lower) / (2 * delta)\<close> of the
  probability, with the batch moved by \<open>delta = lengthscale / 1000\<close> along dimension
  \<open>i\<close> only.
\<close>

definition central_difference ::
  "nat \<Rightarrow> ndarray \<Rightarrow> gp option \<Rightarrow> real \<Rightarrow> real \<Rightarrow> real \<Rightarrow> column" where
  "central_difference i x constraint_model beta midpoint lengthscale =
     (let delta = lengthscale / 1000;
          p_lower = snd (calc_P (column_minus i delta x) constraint_model beta midpoint);
          p_upper = snd (calc_P (column_plus i delta x) constraint_model beta midpoint)
      in col_div_scalar (col_minus p_upper p_lower) (2 * delta))"

definition spec_gradient_of_P ::
  "ndarray \<Rightarrow> gp option \<Rightarrow> real \<Rightarrow> real \<Rightarrow> real \<Rightarrow> ndarray" where
  "spec_gradient_of_P x constraint_model beta midpoint lengthscale =
     \<lparr>ncols = ncols x,
      rows = map (\<lambda>k. map (\<lambda>i. central_difference i x constraint_model beta midpoint
                                 lengthscale ! k) [0..<ncols x])
                 [0..<nrows x]\<rparr>"

section \<open>The auxiliary table and the model builder\<close>

datatype py_error = AttributeError | TypeError | KeyError | ValueError | AssertionError

text \<open>
  A pandas DataFrame: the column labels and the rows of cells. \<open>df_empty\<close> is the
  attribute \<open>.empty\<close>, true when either axis has length zero. \<open>getitem\<close> is
  \<open>data[labels]\<close> followed by \<open>.values\<close>: a KeyError when a label is missing (Python's
  \<open>None\<close> is never a label), otherwise the chosen cells of every row.
\<close>

record dataframe =
  columns :: "string list"
  cells :: "real list list"

definition df_empty :: "dataframe \<Rightarrow> bool" where
  "df_empty df = (columns df = [] \<or> cells df = [])"

fun label_index :: "string \<Rightarrow> string list \<Rightarrow> nat" where
  "label_index c [] = 0"
| "label_index c (l # ls) = (if c = l then 0 else Suc (label_index c ls))"

definition getitem :: "dataframe \<Rightarrow> string list option \<Rightarrow> py_error + real list list" where
  "getitem df labels =
     (case labels of
        None \<Rightarrow> Inl KeyError
      | Some ls \<Rightarrow>
          if list_all (\<lambda>c. c \<in> set (columns df)) ls
          then Inr (map (\<lambda>r. map (\<lambda>c. r ! label_index c (columns df)) ls) (cells df))
          else Inl KeyError)"

text \<open>
  \<open>Y.var()\<close>, \<open>X.max()\<close> and \<open>X.min()\<close> reduce over all cells of the array. numpy raises
  a ValueError for the maximum or minimum of an array without cells. \<open>np_var\<close> is only
  applied to arrays with at least one cell. It is the variance in exact arithmetic: the
  float64 result of numpy can differ from it in the last bits (for a constant array it
  need not be zero), so the statements below evaluate it only on arrays for which every
  float64 step is exact, and none of them says when a computed variance is zero.
\<close>

definition np_mean :: "real list \<Rightarrow> real" where
  "np_mean vs = sum_list vs / real (length vs)"

definition np_var :: "real list list \<Rightarrow> real" where
  "np_var Y = (let vs = concat Y in np_mean (map (\<lambda>v. (v - np_mean vs)\<^sup>2) vs))"

definition np_max :: "real list list \<Rightarrow> py_error + real" where
  "np_max X = (case concat X of [] \<Rightarrow> Inl ValueError | v # vs \<Rightarrow> Inr (fold max vs v))"

definition np_min :: "real list list \<Rightarrow> py_error + real" where
  "np_min X = (case concat X of [] \<Rightarrow> Inl ValueError | v # vs \<Rightarrow> Inr (fold min vs v))"

text \<open>
  What \<open>GP_model\<close> hands to GPy: the kernel with its initial hyperparameters, the
  regression data and the initial noise variance, the bounds of the two
  \<open>constrain_bounded\<close> calls and the arguments of \<open>optimize_restarts\<close>. The construction
  of the kernel and of the regression and the optimization are a parameter \<open>gpy\<close>, which
  maps such a request to the fitted model or to the exception GPy raises.
\<close>

datatype kernel_family = Matern52 | RBF

record fit_request =
  kernel :: kernel_family
  input_dim :: nat
  fit_X :: "real list list"
  fit_Y :: "real list list"
  init_lengthscale :: real
  init_variance :: real
  init_noise_var :: real
  noise_bounds :: "real \<times> real"
  variance_bounds :: "real \<times> real"
  max_iters :: nat
  num_restarts :: nat

text \<open>
  Lines 223 to 262 of \<open>GP_model\<close>: the initial noise variance, kernel variance and
  kernel lengthscale, in this order. An argument is Python's \<open>None\<close> or a number.
\<close>

definition initial_hyperparameters ::
  "real list list \<Rightarrow> real list list \<Rightarrow> real option \<Rightarrow> real option \<Rightarrow> real option
   \<Rightarrow> py_error + real \<times> real \<times> real" where
  "initial_hyperparameters X Y noise_variance variance lengthscale =
     (let noise_var_limit = 1 / 10 ^ 12;
          noise_var_auto =
            (let noise_var = (1 / 100) * np_var Y
             in if noise_var = 0 then noise_var_limit else noise_var);
          noise_var =
            (case noise_variance of
               None \<Rightarrow> noise_var_auto
             | Some v \<Rightarrow> if v \<le> 0 then noise_var_auto else v);
          kernel_var_auto =
            (let kernel_var = np_var Y in if kernel_var = 0 then 1 else kernel_var);
          kernel_var =
            (case variance of
               None \<Rightarrow> kernel_var_auto
             | Some v \<Rightarrow> if v \<le> 0 then kernel_var_auto else v);
          kernel_ls_auto =
            (case np_max X of
               Inl e \<Rightarrow> Inl e
             | Inr hi \<Rightarrow>
                 (case np_min X of
                    Inl e \<Rightarrow> Inl e
                  | Inr lo \<Rightarrow>
                      (let kernel_ls = hi - lo in Inr (if kernel_ls = 0 then 1 else kernel_ls))));
          kernel_ls =
            (case lengthscale of
               None \<Rightarrow> kernel_ls_auto
             | Some v \<Rightarrow> if v \<le> 0 then kernel_ls_auto else Inr v)
      in case kernel_ls of
           Inl e \<Rightarrow> Inl e
         | Inr ls \<Rightarrow> Inr (noise_var, kernel_var, ls))"

text \<open>
  \<open>constrain_bounded(lower, upper)\<close> builds the logistic transformation of paramz, whose
  constructor asserts \<open>lower < upper\<close>.
\<close>

definition constrain_bounded :: "real \<Rightarrow> real \<Rightarrow> py_error + real \<times> real" where
  "constrain_bounded lower upper =
     (if lower < upper then Inr (lower, upper) else Inl AssertionError)"

text \<open>
  \<open>GP_model\<close> of EI\_DFT.py up to the optimization: no request (the model is \<open>None\<close>)
  for an absent or empty table. The noise variance is constrained first (line 274),
  then the kernel variance (line 278). The bounds of the kernel variance are computed
  from the argument \<open>variance\<close>, and \<open>None * 1e-12\<close> is a TypeError.
\<close>

definition GP_request ::
  "dataframe option \<Rightarrow> string option \<Rightarrow> real option \<Rightarrow> real option \<Rightarrow> real option
   \<Rightarrow> string list option \<Rightarrow> py_error + fit_request option" where
  "GP_request data_fusion_data data_fusion_target_variable lengthscale variance
     noise_variance data_fusion_input_variables =
     (case data_fusion_data of
        None \<Rightarrow> Inr None
      | Some df \<Rightarrow>
          if df_empty df then Inr None
          else
            (case getitem df data_fusion_input_variables of
               Inl e \<Rightarrow> Inl e
             | Inr X \<Rightarrow>
            (case getitem df (map_option (\<lambda>t. [t]) data_fusion_target_variable) of
               Inl e \<Rightarrow> Inl e
             | Inr Y \<Rightarrow>
            (case initial_hyperparameters X Y noise_variance variance lengthscale of
               Inl e \<Rightarrow> Inl e
             | Inr (noise_var, kernel_var, kernel_ls) \<Rightarrow>
            (case np_max Y of
               Inl e \<Rightarrow> Inl e
             | Inr Y_max \<Rightarrow>
            (case constrain_bounded (1 / 10 ^ 12) (noise_var + Y_max\<^sup>2) of
               Inl e \<Rightarrow> Inl e
             | Inr noise_interval \<Rightarrow>
            (case variance of
               None \<Rightarrow> Inl TypeError
             | Some v \<Rightarrow>
            (case constrain_bounded (v * (1 / 10 ^ 12)) (v + Y_max\<^sup>2) of
               Inl e \<Rightarrow> Inl e
             | Inr variance_interval \<Rightarrow>
                 Inr (Some
                   \<lparr>kernel = Matern52,
                    input_dim =
                      (case data_fusion_input_variables of None \<Rightarrow> 0 | Some ls \<Rightarrow> length ls),
                    fit_X = X,
                    fit_Y = Y,
                    init_lengthscale = kernel_ls,
                    init_variance = kernel_var,
                    init_noise_var = noise_var,
                    noise_bounds = noise_interval,
                    variance_bounds = variance_interval,
                    max_iters = 1000,
                    num_restarts = 5\<rparr>)))))))))"

definition GP_model ::
  "(fit_request \<Rightarrow> py_error + gp) \<Rightarrow> dataframe option \<Rightarrow> string option \<Rightarrow> real option \<Rightarrow> real option
   \<Rightarrow> real option \<Rightarrow> string list option \<Rightarrow> py_error + gp option" where
  "GP_model gpy data_fusion_data data_fusion_target_variable lengthscale variance
     noise_variance data_fusion_input_variables =
     (case GP_request data_fusion_data data_fusion_target_variable lengthscale variance
             noise_variance data_fusion_input_variables of
        Inl e \<Rightarrow> Inl e
      | Inr None \<Rightarrow> Inr None
      | Inr (Some request) \<Rightarrow>
          (case gpy request of Inl e \<Rightarrow> Inl e | Inr model \<Rightarrow> Inr (Some model)))"




section \<open>The acquisition function\<close>

text \<open>
  The primary surrogate of GPyOpt, as far as the acquisition reads it. \<open>predict\<close> returns
  the mean and the standard deviation, \<open>predict_withGradients\<close> additionally their
  gradients of shape \<open>[n, d]\<close>. \<open>get_quantiles\<close> of GPyOpt's \<open>util.general\<close> is a
  parameter of the two evaluation functions: it maps the jitter, \<open>fmin\<close>, the mean and the
  standard deviation to \<open>(phi, Phi, u)\<close>.
\<close>

record primary_model =
  predict :: "ndarray \<Rightarrow> column \<times> column"
  get_fmin :: npfloat
  predict_withGradients :: "ndarray \<Rightarrow> column \<times> column \<times> ndarray \<times> ndarray"

type_synonym quantiles = "real \<Rightarrow> npfloat \<Rightarrow> column \<Rightarrow> column \<Rightarrow> column \<times> column \<times> column"

text \<open>
  An instance of \<open>AcquisitionEI_DFT\<close>. The constructor can finish without ever
  assigning \<open>self.midpoint\<close>: the attribute is \<open>None\<close> then, and reading it is an
  AttributeError. Every other attribute is assigned on each path through the constructor.
\<close>

record acquisition =
  self_model :: primary_model
  self_jitter :: real
  self_data_fusion_target_variable :: "string option"
  self_data_fusion_input_variables :: "string list option"
  self_constraint_model :: "gp option"
  self_data_fusion_data :: "dataframe option"
  self_lengthscale :: real
  self_variance :: real
  self_beta :: real
  self_midpoint :: "real option"

text \<open>\<open>_compute_acq\<close> of EI\_DFT.py.\<close>

definition compute_acq :: "quantiles \<Rightarrow> acquisition \<Rightarrow> ndarray \<Rightarrow> py_error + column" where
  "compute_acq get_quantiles self x =
     (let (m, s) = predict (self_model self) x;
          fmin = get_fmin (self_model self);
          (phi, Phi, u) = get_quantiles (self_jitter self) fmin m s;
          f_acqu = col_times s (col_plus (col_times u Phi) phi)
      in case self_midpoint self of
           None \<Rightarrow> Inl AttributeError
         | Some mid \<Rightarrow>
             (let prob = snd (calc_P x (self_constraint_model self) (self_beta self) mid);
                  f_acqu = col_times f_acqu prob
              in Inr f_acqu))"

text \<open>
  \<open>_compute_acq_withGradients\<close> of EI\_DFT.py. The test for \<open>nan\<close> only builds a message
  that nothing reads (the logging call is commented out). \<open>f_acqu\<close> is overwritten by its
  product with \<open>prob\<close> before the gradient is combined. A gradient \<open>None\<close> (a batch
  without columns) makes the product \<open>f_acqu * d_prob\<close> a TypeError.
\<close>

definition compute_acq_withGradients ::
  "quantiles \<Rightarrow> ndarray \<Rightarrow> acquisition \<Rightarrow> ndarray \<Rightarrow> py_error + column \<times> ndarray" where
  "compute_acq_withGradients get_quantiles uninit self x =
     (let fmin = get_fmin (self_model self);
          (m, s, dmdx, dsdx) = predict_withGradients (self_model self) x;
          (phi, Phi, u) = get_quantiles (self_jitter self) fmin m s;
          f_acqu = col_times s (col_plus (col_times u Phi) phi);
          df_acqu = mat_minus (mat_times_col dsdx phi) (col_times_mat Phi dmdx);
          message = (if any_isnan x then ''x contains nan'' else [])
      in case self_midpoint self of
           None \<Rightarrow> Inl AttributeError
         | Some mid \<Rightarrow>
             (let prob = snd (calc_P x (self_constraint_model self) (self_beta self) mid);
                  f_acqu = col_times f_acqu prob
              in case calc_gradient_of_P uninit x (self_constraint_model self) (self_beta self)
                        mid (self_lengthscale self) of
                   None \<Rightarrow> Inl TypeError
                 | Some d_prob \<Rightarrow>
                     (let df_acqu = mat_plus (mat_times_col df_acqu prob)
                                             (col_times_mat f_acqu d_prob)
                      in Inr (f_acqu, df_acqu))))"

text \<open>
  The combination the specification describes: the value \<open>EI * prob\<close> and the gradient
  \<open>d_EI * prob + EI * d_prob\<close>, with \<open>EI = s * (u * Phi + phi)\<close> and
  \<open>d_EI = dsdx * phi - Phi * dmdx\<close>, for a given probability and probability gradient.
\<close>

definition spec_acq_withGradients ::
  "quantiles \<Rightarrow> acquisition \<Rightarrow> ndarray \<Rightarrow> column \<Rightarrow> ndarray \<Rightarrow> column \<times> ndarray" where
  "spec_acq_withGradients get_quantiles self x prob d_prob =
     (let fmin = get_fmin (self_model self);
          (m, s, dmdx, dsdx) = predict_withGradients (self_model self) x;
          (phi, Phi, u) = get_quantiles (self_jitter self) fmin m s;
          EI = col_times s (col_plus (col_times u Phi) phi);
          d_EI = mat_minus (mat_times_col dsdx phi) (col_times_mat Phi dmdx)
      in (col_times EI prob,
          mat_plus (mat_times_col d_EI prob) (col_times_mat EI d_prob)))"

text \<open>
  \<open>plot_P\<close> of EI\_DFT.py unpacks the pair that \<open>calc_P\<close> returns into three names:
  whatever the arguments, the call ends in a ValueError.
\<close>

definition plot_P :: "gp option \<Rightarrow> real \<Rightarrow> string \<Rightarrow> real \<Rightarrow> py_error + npfloat \<times> npfloat" where
  "plot_P fitted beta data_type midpoint = Inl ValueError"

text \<open>
  The dictionary \<open>ei_dft_params\<close>, restricted to the eight keys the constructor looks
  up. A field is \<open>None\<close> when the key is absent and \<open>Some v\<close> when it is present with
  value \<open>v\<close>; where the code accepts Python's \<open>None\<close> as a value, \<open>v\<close> is an option
  again.
\<close>

record ei_dft_params =
  df_data :: "dataframe option option"
  df_target_var :: "string option option"
  df_input_var :: "string list option option"
  gp_lengthscale :: "real option option"
  gp_variance :: "real option option"
  p_beta :: "real option"
  p_midpoint :: "real option"
  df_model :: "gp option option"

definition default_params :: ei_dft_params where
  "default_params =
     \<lparr>df_data = Some None,
      df_target_var = Some None,
      df_input_var = Some None,
      gp_lengthscale = Some (Some (3 / 100)),
      gp_variance = Some (Some 2),
      p_beta = Some (25 / 1000),
      p_midpoint = Some 0,
      df_model = Some None\<rparr>"

text \<open>
  \<open>AcquisitionEI_DFT.__init__\<close> of EI\_DFT.py. The base class constructor stores the
  primary model; the search space, the optimizer and the cost are not read again here.
  \<open>init_model\<close> is lines 56 to 95 (the attributes set before the fitted hyperparameters
  are read back), \<open>init_plot\<close> lines 113 to 124.
\<close>

definition init_model ::
  "(fit_request \<Rightarrow> py_error + gp) \<Rightarrow> ei_dft_params
   \<Rightarrow> py_error + (string option \<times> string list option \<times> gp option \<times> dataframe option)" where
  "init_model gpy params =
     (let target = (case df_target_var params of Some v \<Rightarrow> v | None \<Rightarrow> None);
          inputs = (case df_input_var params of Some v \<Rightarrow> v | None \<Rightarrow> None)
      in case df_model params of
           Some m \<Rightarrow> Inr (target, inputs, m, None)
         | None \<Rightarrow>
             (let data = (case df_data params of Some v \<Rightarrow> v | None \<Rightarrow> None);
                  ls =
                    (case gp_lengthscale params of Some v \<Rightarrow> v | None \<Rightarrow> Some (3 / 100));
                  var = (case gp_variance params of Some v \<Rightarrow> v | None \<Rightarrow> Some 2)
              in case GP_model gpy data target ls var None inputs of
                   Inl e \<Rightarrow> Inl e
                 | Inr m \<Rightarrow> Inr (target, inputs, m, data)))"

definition init_plot :: "acquisition \<Rightarrow> py_error + acquisition" where
  "init_plot self =
     (case self_data_fusion_input_variables self of
        None \<Rightarrow> Inl TypeError
      | Some inputs \<Rightarrow>
          if length inputs = 3 then
            (if self_data_fusion_target_variable self = Some ''dGmix (ev/f.u.)''
                \<or> self_data_fusion_target_variable self = Some ''Yellowness''
             then (case self_midpoint self of
                     None \<Rightarrow> Inl AttributeError
                   | Some mid \<Rightarrow>
                       (case plot_P (self_constraint_model self) (self_beta self)
                               (if self_data_fusion_target_variable self = Some ''dGmix (ev/f.u.)''
                                then ''dft'' else ''yellowness'')
                               mid of
                          Inl e \<Rightarrow> Inl e
                        | Inr _ \<Rightarrow> Inr self))
             else Inr self)
          else Inr self)"

definition init ::
  "(fit_request \<Rightarrow> py_error + gp) \<Rightarrow> primary_model \<Rightarrow> real \<Rightarrow> ei_dft_params option
   \<Rightarrow> py_error + acquisition" where
  "init gpy primary jit ei_dft_params =
     (let params = (case ei_dft_params of None \<Rightarrow> default_params | Some p \<Rightarrow> p)
      in case init_model gpy params of
           Inl e \<Rightarrow> Inl e
         | Inr (target, inputs, fitted, data) \<Rightarrow>
             (case fitted of
                None \<Rightarrow> Inl AttributeError
              | Some g \<Rightarrow>
                  (let b = (case p_beta params of Some v \<Rightarrow> v | None \<Rightarrow> 25 / 1000);
                       (b, mid) =
                         (case p_midpoint params of
                            Some v \<Rightarrow> (b, Some v)
                          | None \<Rightarrow> (0, None))
                   in init_plot
                        \<lparr>self_model = primary,
                         self_jitter = jit,
                         self_data_fusion_target_variable = target,
                         self_data_fusion_input_variables = inputs,
                         self_constraint_model = fitted,
                         self_data_fusion_data = data,
                         self_lengthscale = kern_lengthscale g,
                         self_variance = kern_variance g,
                         self_beta = b,
                         self_midpoint = mid\<rparr>)))"

section \<open>Concrete collaborators for the evaluations below\<close>

text \<open>
  \<open>np.log\<close> on one element (without infinities, the logarithm of a non-positive number
  is \<open>NaN\<close>), and a surrogate whose posterior mean is the logarithm of coordinate \<open>i\<close>:
  with \<open>beta = 1\<close> and \<open>midpoint = 0\<close> its probability at a point is \<open>1 / (1 + x\<^sub>i)\<close>.
\<close>

fun np_log :: "npfloat \<Rightarrow> npfloat" where
  "np_log (Fin a) = (if a \<le> 0 then NaN else Fin (ln a))"
| "np_log NaN = NaN"

definition log_surrogate :: "nat \<Rightarrow> gp" where
  "log_surrogate i =
     \<lparr>kern_lengthscale = 500,
      kern_variance = 1,
      predict_noiseless = (\<lambda>points. (map (\<lambda>r. np_log (r ! i)) (rows points),
                                       replicate (nrows points) (Fin 0)))\<rparr>"

text \<open>
  A primary surrogate with constant predictions for one point (\<open>s = 1\<close>, zero
  gradients), one that passes the first coordinate of each point through as mean and
  standard deviation, and quantiles that are constant or pass the standard deviation
  through.
\<close>

definition const_primary :: primary_model where
  "const_primary =
     \<lparr>predict = (\<lambda>x. ([Fin 0], [Fin 1])),
      get_fmin = Fin 0,
      predict_withGradients =
        (\<lambda>x. ([Fin 0], [Fin 1], \<lparr>ncols = 1, rows = [[Fin 0]]\<rparr>, \<lparr>ncols = 1, rows = [[Fin 0]]\<rparr>))\<rparr>"

definition const_quantiles :: quantiles where
  "const_quantiles j fmin m s = ([Fin 1], [Fin 1], [Fin 1])"

definition passing_primary :: primary_model where
  "passing_primary =
     \<lparr>predict = (\<lambda>x. (get_column 0 x, get_column 0 x)),
      get_fmin = Fin 0,
      predict_withGradients = (\<lambda>x. (get_column 0 x, get_column 0 x, x, x))\<rparr>"

definition passing_quantiles :: quantiles where
  "passing_quantiles j fmin m s = (s, s, s)"

text \<open>An instance with the given primary model, constraint model and midpoint.\<close>

definition instance_of :: "primary_model \<Rightarrow> gp option \<Rightarrow> real \<Rightarrow> real option \<Rightarrow> acquisition" where
  "instance_of primary fitted b mid =
     \<lparr>self_model = primary,
      self_jitter = 1 / 100,
      self_data_fusion_target_variable = None,
      self_data_fusion_input_variables = None,
      self_constraint_model = fitted,
      self_data_fusion_data = None,
      self_lengthscale = 500,
      self_variance = 1,
      self_beta = b,
      self_midpoint = mid\<rparr>"

text \<open>
  A dictionary without the key \<open>p_midpoint\<close>: a fitted model is passed in, two input
  variables are named (so that nothing is plotted), and \<open>p_beta\<close> is one half.
\<close>

definition no_midpoint_params :: "gp \<Rightarrow> ei_dft_params" where
  "no_midpoint_params g =
     \<lparr>df_data = None,
      df_target_var = Some (Some ''Yellowness''),
      df_input_var = Some (Some [''a'', ''b'']),
      gp_lengthscale = None,
      gp_variance = None,
      p_beta = Some (1 / 2),
      p_midpoint = None,
      df_model = Some (Some g)\<rparr>"

text \<open>
  A table with two input columns, one target column and two rows; the same table with
  the target constantly 0; and a table with two rows and no column.
\<close>

definition example_frame :: dataframe where
  "example_frame = \<lparr>columns = [''a'', ''b'', ''y''], cells = [[0, 1, 2], [1, 3, 4]]\<rparr>"

definition zero_target_frame :: dataframe where
  "zero_target_frame = \<lparr>columns = [''a'', ''b'', ''y''], cells = [[0, 1, 0], [1, 3, 0]]\<rparr>"


section \<open>Properties\<close>

lemma inv_sigmoid_Fin:
  "beta \<noteq> 0 \<Longrightarrow>
   inv_sigmoid (Fin m) midpoint beta = Fin (1 / (1 + exp ((m - midpoint) / beta)))"
proof -
  assume b: "beta \<noteq> 0"
  have pos: "1 + exp ((m - midpoint) / beta) \<noteq> 0"
    using exp_gt_zero [of "(m - midpoint) / beta"] by linarith
  show ?thesis
    using b pos by (simp add: inv_sigmoid_def)
qed

subsection \<open>The fallback without a surrogate\<close>

lemma times_Fin_1 [simp]: "a * Fin 1 = (a::npfloat)"
  by (cases a) simp_all

lemma col_times_ones: "length a \<le> n \<Longrightarrow> col_times a (replicate n (Fin 1)) = a"
proof (induction a arbitrary: n)
  case Nil
  then show ?case by (simp add: col_times_def)
next
  case (Cons v a)
  then obtain k where "n = Suc k" by (cases n) auto
  with Cons show ?case by (simp add: col_times_def)
qed

lemma calc_P_None:
  "calc_P x None b mp = (replicate (nrows x) (Fin (1/2)), replicate (nrows x) (Fin 1))"
  by (simp add: calc_P_def)

text \<open>
  C3. Without a surrogate, \<open>calc_P\<close> returns the mean 0.5 and the probability 1 for each
  of the \<open>n\<close> points of the batch, whatever its number of columns. For an instance
  without a surrogate (and with \<open>self.midpoint\<close> assigned), whose primary model returns a
  standard deviation with one entry per point, \<open>_compute_acq\<close> returns the plain Expected
  Improvement \<open>s * (u * Phi + phi)\<close>.
\<close>

theorem none_model_is_plain_EI:
  assumes "self_constraint_model self = None"
    and "self_midpoint self = Some mid"
    and "predict (self_model self) x = (m, s)"
    and "get_quantiles (self_jitter self) (get_fmin (self_model self)) m s = (phi, Phi, u)"
    and "length s = nrows x"
  shows "calc_P x None b mp = (replicate (nrows x) (Fin (1/2)), replicate (nrows x) (Fin 1))
       \<and> compute_acq get_quantiles self x = Inr (col_times s (col_plus (col_times u Phi) phi))"
proof -
  have len: "length (col_times s (col_plus (col_times u Phi) phi)) \<le> nrows x"
    using assms(5) by (simp add: col_times_def)
  have "compute_acq get_quantiles self x
        = Inr (col_times (col_times s (col_plus (col_times u Phi) phi))
                 (replicate (nrows x) (Fin 1)))"
    using assms(1-4) by (simp add: compute_acq_def calc_P_None)
  then show ?thesis
    using col_times_ones [OF len] by (simp add: calc_P_None)
qed

theorem none_model_is_plain_EI_witness:
  "self_constraint_model (instance_of const_primary None (1/40) (Some 0)) = None
   \<and> calc_P \<lparr>ncols = 2, rows = [[Fin 0, Fin 3]]\<rparr> None (1/40) 0 = ([Fin (1/2)], [Fin 1])
   \<and> compute_acq const_quantiles (instance_of const_primary None (1/40) (Some 0))
        \<lparr>ncols = 2, rows = [[Fin 0, Fin 3]]\<rparr> = Inr [Fin 2]"
  using none_model_is_plain_EI [of "instance_of const_primary None (1/40) (Some 0)" 0
        "\<lparr>ncols = 2, rows = [[Fin 0, Fin 3]]\<rparr>" "[Fin 0]" "[Fin 1]"
        const_quantiles "[Fin 1]" "[Fin 1]" "[Fin 1]" "1/40" 0]
  by (simp add: instance_of_def const_primary_def const_quantiles_def nrows_def
      col_times_def col_plus_def)

subsection \<open>The gradient of the probability\<close>

lemma log_prob_pos:
  "0 < a \<Longrightarrow> inv_sigmoid (Fin (ln a)) 0 1 = Fin (1 / (1 + a))"
  using inv_sigmoid_Fin [of 1 "ln a" 0] by simp

lemma log_prob_one: "inv_sigmoid (Fin 0) 0 1 = Fin (1 / 2)"
  using inv_sigmoid_Fin [of 1 0 0] by simp

text \<open>
  C1. The claim asks for the central difference in every column. On the batch
  \<open>[[0, 1]]\<close>, with the surrogate whose probability is \<open>1 / (1 + x\<^sub>1)\<close> and the step
  \<open>500 / 1000\<close>, the central difference along the second dimension is \<open>- 4/15\<close>. The code
  writes the first column only: the second column of its result is whatever \<open>np.empty\<close>
  held (\<open>b\<close>).
\<close>

theorem gradient_first_column_only:
  "calc_gradient_of_P \<lparr>ncols = 2, rows = [[a, b]]\<rparr> \<lparr>ncols = 2, rows = [[Fin 0, Fin 1]]\<rparr>
     (Some (log_surrogate 1)) 1 0 500 = Some \<lparr>ncols = 2, rows = [[Fin 0, b]]\<rparr>
   \<and> spec_gradient_of_P \<lparr>ncols = 2, rows = [[Fin 0, Fin 1]]\<rparr>
     (Some (log_surrogate 1)) 1 0 500 = \<lparr>ncols = 2, rows = [[Fin 0, Fin (- 4/15)]]\<rparr>"
  by (simp add: calc_gradient_of_P_def spec_gradient_of_P_def central_difference_def
      calc_P_def log_surrogate_def column_minus_def column_plus_def set_column_def
      col_div_scalar_def col_minus_def nrows_def log_prob_pos log_prob_one upt_rec
      numeral_2_eq_2)

subsection \<open>The combined value and gradient\<close>

text \<open>
  C2. The claim asks for the gradient \<open>d_EI * prob + EI * d_prob\<close>. At the point
  \<open>[[1]]\<close>, with \<open>EI = 2\<close>, \<open>d_EI = 0\<close>, \<open>prob = 1/2\<close> and \<open>d_prob = - 4/15\<close>, that is
  \<open>- 8/15\<close>. The code multiplies \<open>d_prob\<close> by the value it has already multiplied by
  \<open>prob\<close>, and returns \<open>- 4/15\<close>.
\<close>

theorem product_rule_uses_scaled_EI:
  "compute_acq_withGradients const_quantiles \<lparr>ncols = 1, rows = [[a]]\<rparr>
     (instance_of const_primary (Some (log_surrogate 0)) 1 (Some 0))
     \<lparr>ncols = 1, rows = [[Fin 1]]\<rparr>
   = Inr ([Fin 1], \<lparr>ncols = 1, rows = [[Fin (- 4/15)]]\<rparr>)
   \<and> snd (calc_P \<lparr>ncols = 1, rows = [[Fin 1]]\<rparr> (Some (log_surrogate 0)) 1 0) = [Fin (1/2)]
   \<and> calc_gradient_of_P \<lparr>ncols = 1, rows = [[a]]\<rparr> \<lparr>ncols = 1, rows = [[Fin 1]]\<rparr>
        (Some (log_surrogate 0)) 1 0 500 = Some \<lparr>ncols = 1, rows = [[Fin (- 4/15)]]\<rparr>
   \<and> spec_acq_withGradients const_quantiles
        (instance_of const_primary (Some (log_surrogate 0)) 1 (Some 0))
        \<lparr>ncols = 1, rows = [[Fin 1]]\<rparr> [Fin (1/2)] \<lparr>ncols = 1, rows = [[Fin (- 4/15)]]\<rparr>
      = ([Fin 1], \<lparr>ncols = 1, rows = [[Fin (- 8/15)]]\<rparr>)"
  by (simp add: compute_acq_withGradients_def spec_acq_withGradients_def instance_of_def
      const_primary_def const_quantiles_def calc_gradient_of_P_def
      calc_P_def log_surrogate_def column_minus_def column_plus_def set_column_def
      col_div_scalar_def col_minus_def col_times_def col_plus_def mat_times_col_def
      col_times_mat_def mat_plus_def mat_minus_def nrows_def log_prob_pos log_prob_one
      upt_rec)

subsection \<open>Batches with non-finite coordinates\<close>

text \<open>
  C4 claims that a batch with a \<open>nan\<close> coordinate ends in an InvalidInput error. The
  batch \<open>[[nan]]\<close>, with a primary model and quantiles that pass the coordinate through,
  shows the opposite: both functions return, and the result is \<open>nan\<close>.
\<close>

theorem nan_batch_returns_nan:
  "any_isnan \<lparr>ncols = 1, rows = [[NaN]]\<rparr>
   \<and> compute_acq passing_quantiles (instance_of passing_primary None (1/40) (Some 0))
        \<lparr>ncols = 1, rows = [[NaN]]\<rparr> = Inr [NaN]
   \<and> compute_acq_withGradients passing_quantiles \<lparr>ncols = 1, rows = [[Fin 0]]\<rparr>
        (instance_of passing_primary None (1/40) (Some 0))
        \<lparr>ncols = 1, rows = [[NaN]]\<rparr> = Inr ([NaN], \<lparr>ncols = 1, rows = [[NaN]]\<rparr>)"
  by (simp add: any_isnan_def compute_acq_def compute_acq_withGradients_def instance_of_def
      passing_primary_def passing_quantiles_def calc_gradient_of_P_def get_column_def
      calc_P_def column_minus_def column_plus_def set_column_def
      col_div_scalar_def col_minus_def col_times_def col_plus_def mat_times_col_def
      col_times_mat_def mat_plus_def mat_minus_def nrows_def upt_rec Let_def)

text \<open>
  C4, as amended. A batch that contains \<open>nan\<close> is not rejected. With \<open>self.midpoint\<close>
  assigned, \<open>_compute_acq\<close> returns the product of the Expected Improvement and the
  probability that the primary model, the quantiles and \<open>calc_P\<close> give on that batch,
  and \<open>_compute_acq_withGradients\<close> returns a pair whenever the batch has a column.
\<close>

theorem nan_batch_not_rejected:
  assumes "any_isnan x"
    and "self_midpoint self = Some mid"
    and "predict (self_model self) x = (m, s)"
    and "get_quantiles (self_jitter self) (get_fmin (self_model self)) m s = (phi, Phi, u)"
  shows "compute_acq get_quantiles self x
         = Inr (col_times (col_times s (col_plus (col_times u Phi) phi))
                  (snd (calc_P x (self_constraint_model self) (self_beta self) mid)))
       \<and> (0 < ncols x \<longrightarrow>
            (\<exists>f df. compute_acq_withGradients get_quantiles uninit self x = Inr (f, df)))"
proof -
  have a: "compute_acq get_quantiles self x
         = Inr (col_times (col_times s (col_plus (col_times u Phi) phi))
                  (snd (calc_P x (self_constraint_model self) (self_beta self) mid)))"
    using assms(2-4) by (simp add: compute_acq_def Let_def)
  have b: "\<exists>f df. compute_acq_withGradients get_quantiles uninit self x = Inr (f, df)"
    if "0 < ncols x"
  proof -
    from that have "[0..<ncols x] = 0 # [1..<ncols x]"
      by (simp add: upt_rec)
    then obtain g where "calc_gradient_of_P uninit x (self_constraint_model self)
        (self_beta self) mid (self_lengthscale self) = Some g"
      by (simp add: calc_gradient_of_P_def Let_def)
    then show ?thesis
      using assms(2)
      by (simp add: compute_acq_withGradients_def Let_def split: prod.splits)
  qed
  show ?thesis using a b by blast
qed

theorem nan_batch_not_rejected_witness:
  "any_isnan \<lparr>ncols = 1, rows = [[NaN]]\<rparr>
   \<and> compute_acq passing_quantiles (instance_of passing_primary None (1/40) (Some 0))
        \<lparr>ncols = 1, rows = [[NaN]]\<rparr> = Inr [NaN]
   \<and> (\<exists>f df. compute_acq_withGradients passing_quantiles \<lparr>ncols = 1, rows = [[Fin 0]]\<rparr>
        (instance_of passing_primary None (1/40) (Some 0))
        \<lparr>ncols = 1, rows = [[NaN]]\<rparr> = Inr (f, df))"
proof -
  have n: "any_isnan \<lparr>ncols = 1, rows = [[NaN]]\<rparr>"
    by (simp add: any_isnan_def)
  have m: "self_midpoint (instance_of passing_primary None (1/40) (Some 0)) = Some 0"
    by (simp add: instance_of_def)
  have p: "predict (self_model (instance_of passing_primary None (1/40) (Some 0)))
             \<lparr>ncols = 1, rows = [[NaN]]\<rparr> = ([NaN], [NaN])"
    by (simp add: instance_of_def passing_primary_def get_column_def)
  have q: "passing_quantiles (self_jitter (instance_of passing_primary None (1/40) (Some 0)))
             (get_fmin (self_model (instance_of passing_primary None (1/40) (Some 0))))
             [NaN] [NaN] = ([NaN], [NaN], [NaN])"
    by (simp add: passing_quantiles_def)
  show ?thesis
    using n nan_batch_not_rejected [where get_quantiles = passing_quantiles
        and self = "instance_of passing_primary None (1/40) (Some 0)"
        and x = "\<lparr>ncols = 1, rows = [[NaN]]\<rparr>" and mid = 0 and m = "[NaN]" and s = "[NaN]"
        and phi = "[NaN]" and Phi = "[NaN]" and u = "[NaN]"
        and uninit = "\<lparr>ncols = 1, rows = [[Fin 0]]\<rparr>", OF n m p q]
    by (simp add: col_times_def col_plus_def calc_P_None nrows_def instance_of_def)
qed

subsection \<open>The constructor\<close>

text \<open>
  C9. The claim asks for \<open>beta = 1/2\<close> (the supplied \<open>p_beta\<close>) and \<open>midpoint = 0\<close> (the
  default) when only \<open>p_midpoint\<close> is absent. The constructor returns an instance with
  \<open>beta = 0\<close> and without the attribute \<open>midpoint\<close>.
\<close>

theorem missing_midpoint_resets_beta:
  "init gpy primary jit (Some (no_midpoint_params g)) =
     Inr \<lparr>self_model = primary, self_jitter = jit,
          self_data_fusion_target_variable = Some ''Yellowness'',
          self_data_fusion_input_variables = Some [''a'', ''b''],
          self_constraint_model = Some g, self_data_fusion_data = None,
          self_lengthscale = kern_lengthscale g, self_variance = kern_variance g,
          self_beta = 0, self_midpoint = None\<rparr>"
  by (simp add: init_def init_model_def init_plot_def no_midpoint_params_def)

lemma GP_model_None [simp]: "GP_model gpy None t ls v nv ins = Inr None"
  by (simp add: GP_model_def GP_request_def)

lemma GP_model_empty: "df_empty df \<Longrightarrow> GP_model gpy (Some df) t ls v nv ins = Inr None"
  by (simp add: GP_model_def GP_request_def)

text \<open>
  C10. Whenever the auxiliary model of the constructor is \<open>None\<close>, the constructor raises
  (an AttributeError, at the read of \<open>constraint_model.kern\<close>): for the default
  dictionary, for a dictionary whose \<open>df_model\<close> is \<open>None\<close>, and for a dictionary without
  \<open>df_model\<close> whose \<open>df_data\<close> is absent, \<open>None\<close> or empty. So no instance that the
  constructor returns has the model \<open>None\<close>.
\<close>

theorem init_without_model_raises:
  "init gpy primary jit None = Inl AttributeError
   \<and> (df_model p = Some None \<longrightarrow> init gpy primary jit (Some p) = Inl AttributeError)
   \<and> (df_model p = None \<and>
        (df_data p = None \<or> df_data p = Some None
          \<or> (\<exists>df. df_data p = Some (Some df) \<and> df_empty df))
        \<longrightarrow> init gpy primary jit (Some p) = Inl AttributeError)
   \<and> (init_model gpy (case params of None \<Rightarrow> default_params | Some q \<Rightarrow> q)
          = Inr (target, inputs, None, data)
        \<longrightarrow> init gpy primary jit params = Inl AttributeError)
   \<and> (init gpy primary jit params = Inr self \<longrightarrow> self_constraint_model self \<noteq> None)"
proof -
  have a: "init gpy primary jit None = Inl AttributeError"
    by (simp add: init_def init_model_def default_params_def)
  have b: "init gpy primary jit (Some p) = Inl AttributeError" if "df_model p = Some None"
    using that by (simp add: init_def init_model_def)
  have c: "init gpy primary jit (Some p) = Inl AttributeError"
    if "df_model p = None \<and> (df_data p = None \<or> df_data p = Some None
          \<or> (\<exists>df. df_data p = Some (Some df) \<and> df_empty df))"
    using that by (auto simp add: init_def init_model_def GP_model_empty)
  have d: "init gpy primary jit params = Inl AttributeError"
    if "init_model gpy (case params of None \<Rightarrow> default_params | Some q \<Rightarrow> q)
          = Inr (target, inputs, None, data)"
    using that by (simp add: init_def)
  have e: "self_constraint_model self \<noteq> None" if "init gpy primary jit params = Inr self"
    using that
    by (auto simp add: init_def init_plot_def plot_P_def Let_def
        split: sum.splits option.splits prod.splits if_splits)
  show ?thesis using a b c d e by blast
qed

theorem init_without_model_raises_witness:
  "df_model default_params = Some None
   \<and> init (\<lambda>r. Inr (log_surrogate 0)) const_primary (1/100) (Some default_params)
       = Inl AttributeError
   \<and> df_model (default_params\<lparr>df_model := None\<rparr>) = None
   \<and> df_data (default_params\<lparr>df_model := None\<rparr>) = Some None
   \<and> init (\<lambda>r. Inr (log_surrogate 0)) const_primary (1/100)
         (Some (default_params\<lparr>df_model := None\<rparr>)) = Inl AttributeError
   \<and> init_model (\<lambda>r. Inr (log_surrogate 0)) default_params = Inr (None, None, None, None)
   \<and> (\<exists>self. init (\<lambda>r. Inr (log_surrogate 0)) const_primary (1/100)
                  (Some (no_midpoint_params (log_surrogate 0))) = Inr self
               \<and> self_constraint_model self \<noteq> None)"
proof -
  have b: "df_model default_params = Some None"
    by (simp add: default_params_def)
  have c: "df_model (default_params\<lparr>df_model := None\<rparr>) = None
         \<and> df_data (default_params\<lparr>df_model := None\<rparr>) = Some None"
    by (simp add: default_params_def)
  have d: "init_model (\<lambda>r. Inr (log_surrogate 0)) default_params = Inr (None, None, None, None)"
    by (simp add: init_model_def default_params_def)
  obtain self where e: "init (\<lambda>r. Inr (log_surrogate 0)) const_primary (1/100)
                  (Some (no_midpoint_params (log_surrogate 0))) = Inr self"
    by (simp add: init_def init_model_def init_plot_def no_midpoint_params_def)
  note t1 = init_without_model_raises [where gpy = "\<lambda>r. Inr (log_surrogate 0)"
      and primary = const_primary and jit = "1/100" and p = default_params
      and params = "Some (no_midpoint_params (log_surrogate 0))" and self = self]
  note t2 = init_without_model_raises [where gpy = "\<lambda>r. Inr (log_surrogate 0)"
      and primary = const_primary and jit = "1/100"
      and p = "default_params\<lparr>df_model := None\<rparr>"
      and params = None and target = None and inputs = None and data = None]
  show ?thesis
    using b c d e t1 t2 by auto
qed

subsection \<open>The model builder\<close>

lemmas frame_eval = GP_model_def GP_request_def getitem_def df_empty_def
  initial_hyperparameters_def np_var_def np_mean_def np_max_def np_min_def
  constrain_bounded_def power2_eq_square

text \<open>
  C8. The claim asks that every non-empty table ends in a fit with bounded
  hyperparameters and at least five restarts. For a target that is constantly 0 the
  initial noise variance is the floor \<open>1e-12\<close>, and the upper bound
  \<open>1e-12 + max(Y)\<^sup>2\<close> equals the lower bound: the first \<open>constrain_bounded\<close> raises an
  AssertionError and nothing is fitted. The bounds of the kernel variance are computed
  from the argument \<open>variance\<close>, not from the corrected kernel variance: for
  \<open>variance = - 20\<close> and \<open>max(Y) = 4\<close> they are not an interval (AssertionError), and
  for \<open>variance = None\<close> the product is a TypeError. Rounding does not change the
  outcome of these three evaluations; in the first, every float64 step is exact.
\<close>

theorem GP_model_constant_zero_target_raises:
  "\<not> df_empty zero_target_frame
   \<and> GP_model gpy (Some zero_target_frame) (Some ''y'') (Some (3/100)) (Some 2) None
        (Some [''a'', ''b'']) = Inl AssertionError
   \<and> GP_model gpy (Some example_frame) (Some ''y'') (Some (3/100)) (Some (- 20)) None
        (Some [''a'', ''b'']) = Inl AssertionError
   \<and> GP_model gpy (Some example_frame) (Some ''y'') (Some (3/100)) None None
        (Some [''a'', ''b'']) = Inl TypeError"
  by (simp add: frame_eval zero_target_frame_def example_frame_def)

subsection \<open>Absent and empty tables\<close>






end
